theory Spec2Isabelle
  imports Main "HOL-Library.AList"
begin

section \<open>Python strings\<close>

text \<open>
  A Python \<open>str\<close> is a sequence of Unicode code points, and \<open>len\<close>, slicing and
  \<open>endswith\<close> count code points. A string is therefore a list of code points
  (natural numbers); \<open>u\<close> embeds an ASCII literal.
\<close>

type_synonym pystr = "nat list"

definition u :: "string \<Rightarrow> pystr" where
  "u s = map of_char s"

definition ELLIPSIS :: nat where
  \<comment> \<open>the horizontal ellipsis, U+2026\<close>
  "ELLIPSIS = 8230"

definition py_isspace :: "nat \<Rightarrow> bool" where
  \<comment> \<open>the code points that \<open>str.split()\<close> treats as whitespace\<close>
  "py_isspace c \<longleftrightarrow>
     (9 \<le> c \<and> c \<le> 13) \<or> (28 \<le> c \<and> c \<le> 32) \<or> c = 133 \<or> c = 160 \<or> c = 5760 \<or>
     (8192 \<le> c \<and> c \<le> 8202) \<or> c = 8232 \<or> c = 8233 \<or> c = 8239 \<or> c = 8287 \<or> c = 12288"

text \<open>\<open>s.split()\<close>: the maximal runs of non-whitespace code points, in order.\<close>

fun split_acc :: "pystr \<Rightarrow> pystr \<Rightarrow> pystr list" where
  "split_acc cur [] = (if cur = [] then [] else [rev cur])"
| "split_acc cur (c # cs) =
     (if py_isspace c then (if cur = [] then split_acc [] cs else rev cur # split_acc [] cs)
      else split_acc (c # cur) cs)"

definition py_split :: "pystr \<Rightarrow> pystr list" where
  "py_split s = split_acc [] s"

text \<open>\<open>s.split(sep)\<close> for a one-character separator: every occurrence cuts.\<close>

fun split_on :: "nat \<Rightarrow> pystr \<Rightarrow> pystr list" where
  "split_on sep [] = [[]]"
| "split_on sep (c # cs) =
     (if c = sep then [] # split_on sep cs
      else (case split_on sep cs of [] \<Rightarrow> [[c]] | p # ps \<Rightarrow> (c # p) # ps))"

fun startswith :: "pystr \<Rightarrow> pystr \<Rightarrow> bool" where
  \<comment> \<open>\<open>startswith s p\<close> is \<open>s.startswith(p)\<close>\<close>
  "startswith s [] = True"
| "startswith [] (p # ps) = False"
| "startswith (c # cs) (p # ps) = (c = p \<and> startswith cs ps)"

definition endswith :: "pystr \<Rightarrow> pystr \<Rightarrow> bool" where
  "endswith s p = startswith (rev s) (rev p)"

text \<open>
  \<open>s.replace(old, new)\<close>: the non-overlapping occurrences of \<open>old\<close>, found from the left,
  are replaced; an empty \<open>old\<close> matches before every code point and at the end.
\<close>

function replace_ne :: "pystr \<Rightarrow> pystr \<Rightarrow> pystr \<Rightarrow> pystr" where
  "replace_ne old new [] = []"
| "replace_ne old new (c # cs) =
     (if old \<noteq> [] \<and> startswith (c # cs) old
      then new @ replace_ne old new (drop (length old) (c # cs))
      else c # replace_ne old new cs)"
  by pat_completeness auto
termination
  by (relation "measure (\<lambda>(old, new, s). length s)") auto

definition py_replace :: "pystr \<Rightarrow> pystr \<Rightarrow> pystr \<Rightarrow> pystr" where
  "py_replace s old new =
     (if old = [] then new @ concat (map (\<lambda>c. c # new) s) else replace_ne old new s)"

text \<open>\<open>s.index(w)\<close>: the position of the first occurrence, \<open>None\<close> for ValueError.\<close>

fun py_index :: "pystr \<Rightarrow> pystr \<Rightarrow> nat option" where
  "py_index [] w = (if w = [] then Some 0 else None)"
| "py_index (c # cs) w =
     (if startswith (c # cs) w then Some 0 else map_option Suc (py_index cs w))"

text \<open>\<open>s.splitlines()\<close>: cut at line boundaries, \<open>\r\n\<close> counting as one.\<close>

definition is_linebreak :: "nat \<Rightarrow> bool" where
  "is_linebreak c \<longleftrightarrow>
     (10 \<le> c \<and> c \<le> 13) \<or> (28 \<le> c \<and> c \<le> 30) \<or> c = 133 \<or> c = 8232 \<or> c = 8233"

fun lines_acc :: "pystr \<Rightarrow> pystr \<Rightarrow> pystr list" where
  "lines_acc cur [] = (if cur = [] then [] else [rev cur])"
| "lines_acc cur [c] = (if is_linebreak c then [rev cur] else [rev (c # cur)])"
| "lines_acc cur (c # d # cs) =
     (if c = 13 \<and> d = 10 then rev cur # lines_acc [] cs
      else if is_linebreak c then rev cur # lines_acc [] (d # cs)
      else lines_acc (c # cur) (d # cs))"

definition splitlines :: "pystr \<Rightarrow> pystr list" where
  "splitlines s = lines_acc [] s"

fun py_join :: "pystr \<Rightarrow> pystr list \<Rightarrow> pystr" where
  \<comment> \<open>\<open>sep.join(xs)\<close>\<close>
  "py_join sep [] = []"
| "py_join sep [x] = x"
| "py_join sep (x # y # ys) = x @ sep @ py_join sep (y # ys)"

text \<open>POSIX \<open>os.path.split(p)[1]\<close> and \<open>os.path.join(a, b)\<close>.\<close>

definition basename :: "pystr \<Rightarrow> pystr" where
  "basename p = rev (takeWhile (\<lambda>c. c \<noteq> 47) (rev p))"

definition path_join :: "pystr \<Rightarrow> pystr \<Rightarrow> pystr" where
  "path_join a b =
     (if startswith b [47] then b
      else if a = [] \<or> endswith a [47] then a @ b
      else a @ [47] @ b)"

text \<open>The loop \<open>for word in s.split(): body_markdown += word + " "\<close>.\<close>

definition join_words :: "pystr list \<Rightarrow> pystr" where
  "join_words ws = concat (map (\<lambda>w. w @ [32]) ws)"

section \<open>Exceptions\<close>

text \<open>An exception that escapes, with the line of \<open>core/parser.py\<close> that raises it.\<close>

datatype py_error = IndexError nat | KeyError nat | ValueError nat | OSError nat

fun bind :: "py_error + 'a \<Rightarrow> ('a \<Rightarrow> py_error + 'b) \<Rightarrow> py_error + 'b" where
  "bind (Inl e) f = Inl e"
| "bind (Inr x) f = f x"

section \<open>Constants\<close>

definition USER_URL_TEMPLATE :: "pystr \<Rightarrow> pystr" where
  \<comment> \<open>\<open>'https://twitter.com/i/user/{}'.format(id)\<close>\<close>
  "USER_URL_TEMPLATE user_id = u ''https://twitter.com/i/user/'' @ user_id"

definition UNKNOWN_HANDLE :: pystr where
  "UNKNOWN_HANDLE = u ''~unknown~handle~''"

definition TWEET_URL :: "pystr \<Rightarrow> pystr \<Rightarrow> pystr" where
  \<comment> \<open>\<open>'https://twitter.com/{username}/status/{tweet_id_str}'\<close>\<close>
  "TWEET_URL username tweet_id_str =
     u ''https://twitter.com/'' @ username @ u ''/status/'' @ tweet_id_str"

definition REPLAY_TO_TWEET :: "pystr \<Rightarrow> pystr \<Rightarrow> pystr" where
  \<comment> \<open>\<open>'https://twitter.com/{in_reply_to_screen_name}/status/{in_reply_to_status_id}'\<close>\<close>
  "REPLAY_TO_TWEET in_reply_to_screen_name in_reply_to_status_id =
     u ''https://twitter.com/'' @ in_reply_to_screen_name @ u ''/status/'' @ in_reply_to_status_id"

definition BEST_QUALITY_URL :: "pystr \<Rightarrow> pystr" where
  \<comment> \<open>\<open>'https://pbs.twimg.com/media/{original_filename}:orig'\<close>\<close>
  "BEST_QUALITY_URL original_filename =
     u ''https://pbs.twimg.com/media/'' @ original_filename @ u '':orig''"

definition RT :: pystr where
  "RT = u ''RT''"

definition DIRECT_MESSAGE_MEDIA :: pystr where
  "DIRECT_MESSAGE_MEDIA = u ''direct_messages_media''"

definition DIRECT_MESSAGES_GROUP_MEDIA :: pystr where
  "DIRECT_MESSAGES_GROUP_MEDIA = u ''direct_messages_group_media''"

section \<open>The archive's JSON\<close>

text \<open>
  The parsed JSON of each source file, as \<open>_read_json_from_js_file\<close> returns it. A key
  is an optional field exactly when the parser tests for it (\<open>KEY in d\<close>); a key that
  the parser reads without a test is a plain field. \<open>'a field\<close> adds JSON \<open>null\<close>
  where the parser compares with \<open>None\<close>.
\<close>

datatype 'a field = Absent | Null | Val 'a

record account_ref =
  accountId :: "pystr option"

record follow_entry =
  following :: "account_ref option"

record follower_entry =
  follower :: "account_ref option"

record dm_url =
  dm_url_url :: "pystr option"
  expanded :: "pystr option"

record message_create =
  senderId :: "pystr option"
  recipientId :: "pystr option"
  mc_text :: "pystr option"
  createdAt :: "pystr option"
  urls :: "dm_url list option"
  mediaUrls :: "pystr list option"
  mc_id :: pystr

record join_conversation =
  jc_initiatingUserId :: pystr
  participantsSnapshot :: "pystr list"

record participants_join =
  pj_initiatingUserId :: pystr
  userIds :: "pystr list"

record conversation_name_update =
  cnu_name :: "pystr option"

text \<open>
  An event of a conversation is a dictionary with one key that names its kind; the kinds
  the parser does not look at are \<open>OtherEvent\<close>.
\<close>

datatype message =
    MessageCreate message_create
  | JoinConversation join_conversation
  | ParticipantsJoin participants_join
  | ConversationNameUpdate conversation_name_update
  | OtherEvent

record dm_conversation =
  conversationId :: "pystr option"
  messages :: "message list option"

record conversation =
  dmConversation :: "dm_conversation option"

section \<open>The world outside the parser\<close>

record ParseResult =
  scheme :: pystr
  netloc :: pystr
  path :: pystr
  params :: pystr
  query :: pystr
  fragment :: pystr

record lookup_user =
  lu_id_str :: pystr
  lu_screen_name :: "pystr field"

text \<open>
  What the standard library, the file system and the lookup service answer:
  \<^item> \<open>urlparse\<close>, \<open>None\<close> when it raises ValueError;
  \<^item> \<open>py_int\<close> is \<open>int(s)\<close>, \<open>None\<close> when it raises ValueError;
  \<^item> \<open>set_rank xs x\<close> is the place of \<open>x\<close> in the iteration order of the \<open>set\<close> built by
    inserting \<open>xs\<close>: Python iterates a set in the order of its hash table, which the
    language does not fix;
  \<^item> \<open>relpath m d\<close> is \<open>os.path.relpath(m, d)\<close>;
  \<^item> \<open>glob fs pattern\<close> lists the files that match;
  \<^item> \<open>copy_fails src dst\<close> tells whether \<open>shutil.copy\<close> raises;
  \<^item> \<open>guest_activate\<close> is the \<open>guest_token\<close> of the service's answer, \<open>None\<close> when
    the request or the decoding raises;
  \<^item> \<open>users_lookup tok batch\<close> is the decoded answer for one batch, \<open>None\<close> when the
    request raises or the status is not 200.
\<close>

record env =
  urlparse :: "pystr \<Rightarrow> ParseResult option"
  py_int :: "pystr \<Rightarrow> int option"
  set_rank :: "pystr list \<Rightarrow> pystr \<Rightarrow> nat"
  relpath :: "pystr \<Rightarrow> pystr \<Rightarrow> pystr"
  glob :: "pystr set \<Rightarrow> pystr \<Rightarrow> pystr list"
  copy_fails :: "pystr \<Rightarrow> pystr \<Rightarrow> bool"
  guest_activate :: "pystr option"
  users_lookup :: "pystr \<Rightarrow> pystr list \<Rightarrow> lookup_user list option"

text \<open>
  A Python \<open>set\<close> is kept as the list of the insertions made; \<open>first_seen\<close> keeps the first
  insertion of each element. \<open>list(s)\<close> and \<open>for x in s\<close> see the elements once each, in
  hash-table order: sorted by \<open>set_rank\<close>, elements of equal rank in the order first seen.
\<close>

definition first_seen :: "pystr list \<Rightarrow> pystr list" where
  "first_seen xs = rev (remdups (rev xs))"

definition py_set_iter :: "env \<Rightarrow> pystr list \<Rightarrow> pystr list" where
  "py_set_iter e xs = sort_key (set_rank e xs) (first_seen xs)"

section \<open>The parser's state\<close>

record UserData =
  user_id :: pystr
  handle :: pystr

record PathConfig =
  dir_input_data :: pystr
  dir_input_media :: pystr
  dir_output_media :: pystr
  example_file_output_tweets :: pystr

datatype reg_origin = Discovery | BulkLookup

datatype log_entry =
    Warning_no_url pystr pystr pystr pystr
  | Warning_missing_local_file pystr pystr
  | Error_failed_download

text \<open>
  \<open>users\<close> is \<open>self._users\<close>; \<open>reg_log\<close> lists the writes to it in the order they are
  made, each with the statement that made it (lines 582 and 591 while a tweet is
  converted, line 367 after the bulk lookup). \<open>requests\<close> lists the batches of ids that
  \<open>session.get\<close> of line 393 has sent to the lookup service, in the order they are sent.
  \<open>files\<close> is the set of regular files, \<open>logged\<close> what went to \<open>logging.warning\<close> or
  \<open>logging.error\<close>.
\<close>

record parser =
  user_name :: pystr
  paths :: PathConfig
  users :: "pystr \<rightharpoonup> UserData"
  reg_log :: "(reg_origin \<times> pystr) list"
  requests :: "pystr list list"
  files :: "pystr set"
  logged :: "log_entry list"

definition register :: "reg_origin \<Rightarrow> pystr \<Rightarrow> pystr \<Rightarrow> parser \<Rightarrow> parser" where
  \<comment> \<open>\<open>users[uid] = UserData(user_id=uid, handle=h)\<close>\<close>
  "register origin uid h s =
     s\<lparr>users := (users s)(uid \<mapsto> \<lparr>user_id = uid, handle = h\<rparr>),
       reg_log := reg_log s @ [(origin, uid)]\<rparr>"

definition logging :: "log_entry \<Rightarrow> parser \<Rightarrow> parser" where
  "logging l s = s\<lparr>logged := logged s @ [l]\<rparr>"

section \<open>The tweets' JSON\<close>

record url_entity =
  ue_url :: "pystr option"
  expanded_url :: "pystr option"
  display_url :: "pystr option"
  indices :: "nat list option"

record media_entity =
  me_url :: pystr

record variant =
  bitrate :: "pystr option"
  variant_url :: pystr

record video_info =
  variants :: "variant list option"

record ext_media =
  em_url :: "pystr option"
  media_url :: "pystr option"
  em_video_info :: "video_info option"

record mention =
  mention_id :: "pystr option"
  mention_screen_name :: "pystr field"

record entities =
  media :: "media_entity list option"
  ent_urls :: "url_entity list option"
  user_mentions :: "mention option list field"

record extended_entities =
  ext_media_list :: "ext_media list option"

record tweet =
  created_at :: pystr
  full_text :: pystr
  id_str :: pystr
  tweet_entities :: "entities option"
  tweet_extended_entities :: "extended_entities option"
  in_reply_to_status_id :: "pystr option"
  in_reply_to_screen_name :: "pystr field"
  in_reply_to_user_id :: "pystr option"

text \<open>A record of a tweets file is the tweet itself or wraps it under the key \<open>tweet\<close>.\<close>

datatype raw_tweet = Wrapped tweet | Bare tweet

record archive =
  tweets_json :: "raw_tweet list list"
  following_json :: "follow_entry list"
  follower_json :: "follower_entry list"
  dms_json :: "conversation list"
  group_dms_json :: "conversation list"

section \<open>Candidate ids for the bulk lookup\<close>

definition following_account_id :: "follow_entry \<Rightarrow> pystr option" where
  \<comment> \<open>\<open>FOLLOWING in follow and ACCOUNT_ID in follow[FOLLOWING]\<close>\<close>
  "following_account_id follow =
     (case following follow of None \<Rightarrow> None | Some f \<Rightarrow> accountId f)"

definition follower_account_id :: "follower_entry \<Rightarrow> pystr option" where
  "follower_account_id fo =
     (case follower fo of None \<Rightarrow> None | Some f \<Rightarrow> accountId f)"

definition collect_user_ids_from_followings :: "archive \<Rightarrow> pystr list" where
  "collect_user_ids_from_followings a = List.map_filter following_account_id (following_json a)"

definition collect_user_ids_from_followers :: "archive \<Rightarrow> pystr list" where
  "collect_user_ids_from_followers a = List.map_filter follower_account_id (follower_json a)"

text \<open>
  The loop of \<open>_collect_user_ids_from_direct_messages\<close>; the unpacking
  \<open>user1_id, user2_id = conversation_id.split('-')\<close> raises ValueError unless the split
  has two parts.
\<close>

fun dms_user_ids_loop :: "conversation list \<Rightarrow> pystr list \<Rightarrow> py_error + pystr list" where
  "dms_user_ids_loop [] dms_user_ids = Inr dms_user_ids"
| "dms_user_ids_loop (c # cs) dms_user_ids =
     (case dmConversation c of
        None \<Rightarrow> dms_user_ids_loop cs dms_user_ids
      | Some d \<Rightarrow>
          (case conversationId d of
             None \<Rightarrow> dms_user_ids_loop cs dms_user_ids
           | Some conversation_id \<Rightarrow>
               (case split_on 45 conversation_id of
                  [user1_id, user2_id] \<Rightarrow>
                    dms_user_ids_loop cs (dms_user_ids @ [user1_id, user2_id])
                | _ \<Rightarrow> Inl (ValueError 307))))"

definition collect_user_ids_from_direct_messages :: "env \<Rightarrow> archive \<Rightarrow> py_error + pystr list" where
  "collect_user_ids_from_direct_messages e a =
     bind (dms_user_ids_loop (dms_json a) []) (\<lambda>dms_user_ids. Inr (py_set_iter e dms_user_ids))"

fun message_participant_ids :: "message \<Rightarrow> py_error + pystr list" where
  "message_participant_ids (MessageCreate mc) =
     (case senderId mc of None \<Rightarrow> Inl (KeyError 340) | Some sender \<Rightarrow> Inr [sender])"
| "message_participant_ids (JoinConversation jc) =
     Inr (jc_initiatingUserId jc # participantsSnapshot jc)"
| "message_participant_ids (ParticipantsJoin pj) =
     Inr (pj_initiatingUserId pj # userIds pj)"
| "message_participant_ids _ = Inr []"

fun group_user_ids_loop :: "message list \<Rightarrow> pystr list \<Rightarrow> py_error + pystr list" where
  "group_user_ids_loop [] group_user_ids = Inr group_user_ids"
| "group_user_ids_loop (m # ms) group_user_ids =
     bind (message_participant_ids m) (\<lambda>ids. group_user_ids_loop ms (group_user_ids @ ids))"

definition find_group_dm_conversation_participant_ids :: "conversation \<Rightarrow> py_error + pystr list" where
  "find_group_dm_conversation_participant_ids c =
     (case dmConversation c of
        None \<Rightarrow> Inr []
      | Some d \<Rightarrow>
          (case conversationId d of
             None \<Rightarrow> Inr []
           | Some _ \<Rightarrow>
               (case messages d of None \<Rightarrow> Inr [] | Some ms \<Rightarrow> group_user_ids_loop ms [])))"

fun group_dms_user_ids_loop :: "env \<Rightarrow> conversation list \<Rightarrow> pystr list \<Rightarrow> py_error + pystr list" where
  "group_dms_user_ids_loop e [] group_dms_user_ids = Inr group_dms_user_ids"
| "group_dms_user_ids_loop e (c # cs) group_dms_user_ids =
     bind (find_group_dm_conversation_participant_ids c) (\<lambda>participants.
       group_dms_user_ids_loop e cs (group_dms_user_ids @ py_set_iter e participants))"

definition collect_user_ids_from_group_direct_messages :: "env \<Rightarrow> archive \<Rightarrow> py_error + pystr list" where
  "collect_user_ids_from_group_direct_messages e a =
     bind (group_dms_user_ids_loop e (group_dms_json a) [])
       (\<lambda>group_dms_user_ids. Inr (py_set_iter e group_dms_user_ids))"

text \<open>
  \<open>collected_user_ids\<close> of \<open>_bulk_look_up_for_user_handles\<close>: a union is the insertions of
  both sets, a difference keeps the insertions that are not in the other set.
\<close>

definition collected_user_ids :: "env \<Rightarrow> archive \<Rightarrow> py_error + pystr list" where
  "collected_user_ids e a =
     (let following_ids = collect_user_ids_from_followings a;
          follower_ids = collect_user_ids_from_followers a
      in bind (collect_user_ids_from_direct_messages e a) (\<lambda>dms_user_ids.
         bind (collect_user_ids_from_group_direct_messages e a) (\<lambda>group_dms_user_ids.
           let collected_user_ids_without_followers =
                 py_set_iter e (following_ids @ dms_user_ids @ group_dms_user_ids);
               collected_user_ids_only_in_followers =
                 filter (\<lambda>i. i \<notin> set collected_user_ids_without_followers) follower_ids
           in Inr (py_set_iter e
                 (collected_user_ids_without_followers @ collected_user_ids_only_in_followers)))))"

section \<open>The bulk lookup\<close>

definition filtered_user_ids :: "parser \<Rightarrow> pystr list \<Rightarrow> pystr list" where
  \<comment> \<open>\<open>[id for id in user_ids if id not in self._users]\<close>, the ids that are requested\<close>
  "filtered_user_ids s user_ids = filter (\<lambda>i. users s i = None) user_ids"

definition get_twitter_api_guest_token :: "env \<Rightarrow> pystr option" where
  \<comment> \<open>\<open>None\<close> when it raises\<close>
  "get_twitter_api_guest_token e =
     (case guest_activate e of None \<Rightarrow> None | Some tok \<Rightarrow> if tok = [] then None else Some tok)"

text \<open>
  \<open>_get_twitter_users\<close>: batches of at most 100 ids, each sent with \<open>session.get\<close>; the
  answers fill a dictionary keyed by \<open>id_str\<close>; a failed batch raises, no later batch is
  sent and nothing is returned. The result is the batches that were sent, and the
  dictionary unless a batch failed.
\<close>

function get_twitter_users ::
  "env \<Rightarrow> pystr \<Rightarrow> pystr list \<Rightarrow> (pystr \<times> lookup_user) list \<Rightarrow>
   pystr list list \<times> (pystr \<times> lookup_user) list option" where
  "get_twitter_users e guest_token user_ids retrieved =
     (if user_ids = [] then ([], Some retrieved)
      else (case users_lookup e guest_token (take 100 user_ids) of
              None \<Rightarrow> ([take 100 user_ids], None)
            | Some response_json \<Rightarrow>
                (case get_twitter_users e guest_token (drop 100 user_ids)
                        (fold (\<lambda>user acc. AList.update (lu_id_str user) user acc) response_json retrieved)
                 of (sent, r) \<Rightarrow> (take 100 user_ids # sent, r))))"
  by pat_completeness auto
termination
  by (relation "measure (\<lambda>(e, guest_token, user_ids, retrieved). length user_ids)") auto

declare get_twitter_users.simps [simp del]

text \<open>
  The loop over \<open>retrieved_users.items()\<close>: a record without the key \<open>screen_name\<close> raises
  KeyError, which the \<open>except\<close> of \<open>_lookup_users\<close> logs; the writes made before stay.
\<close>

fun register_retrieved :: "(pystr \<times> lookup_user) list \<Rightarrow> parser \<Rightarrow> parser" where
  "register_retrieved [] s = s"
| "register_retrieved ((uid, user) # rest) s =
     (case lu_screen_name user of
        Absent \<Rightarrow> logging Error_failed_download s
      | Null \<Rightarrow> register_retrieved rest s
      | Val h \<Rightarrow> register_retrieved rest (register BulkLookup uid h s))"

definition lookup_users :: "env \<Rightarrow> pystr list \<Rightarrow> parser \<Rightarrow> parser" where
  "lookup_users e user_ids s =
     (if filtered_user_ids s user_ids = [] then s
      else (case get_twitter_api_guest_token e of
              None \<Rightarrow> logging Error_failed_download s
            | Some guest_token \<Rightarrow>
                (case get_twitter_users e guest_token (filtered_user_ids s user_ids) [] of
                   (sent, None) \<Rightarrow>
                     logging Error_failed_download (s\<lparr>requests := requests s @ sent\<rparr>)
                 | (sent, Some retrieved_users) \<Rightarrow>
                     register_retrieved retrieved_users (s\<lparr>requests := requests s @ sent\<rparr>))))"

definition bulk_look_up_for_user_handles :: "env \<Rightarrow> archive \<Rightarrow> parser \<Rightarrow> py_error + parser" where
  "bulk_look_up_for_user_handles e a s =
     bind (collected_user_ids e a) (\<lambda>ids. Inr (lookup_users e ids s))"

section \<open>The ids that the sources reference\<close>

text \<open>
  What each event of a group conversation contributes to its participants: the sender of
  a created message, the initiating user and the snapshot of a join, the initiating user
  and the added users of a participants-join.
\<close>

definition event_ids :: "message \<Rightarrow> pystr set" where
  "event_ids m =
     (case m of
        MessageCreate mc \<Rightarrow> set_option (senderId mc)
      | JoinConversation jc \<Rightarrow> insert (jc_initiatingUserId jc) (set (participantsSnapshot jc))
      | ParticipantsJoin pj \<Rightarrow> insert (pj_initiatingUserId pj) (set (userIds pj))
      | _ \<Rightarrow> {})"

definition group_conversation_ids :: "conversation \<Rightarrow> pystr set" where
  "group_conversation_ids c =
     {i. \<exists>d ms. dmConversation c = Some d \<and> conversationId d \<noteq> None \<and> messages d = Some ms \<and>
          (\<exists>m \<in> set ms. i \<in> event_ids m)}"


section \<open>Converting a tweet\<close>

datatype TweetType = TWEET | RETWEET | REPLY

record Tweet =
  tweet_year :: pystr
  tweet_type :: TweetType
  retweeted_from :: "pystr option"
  replied_to_names :: "pystr list option"
  replying_to_tweet :: "pystr option"
  tweet_data :: pystr
  tweeted_at :: pystr
  tweet_url :: pystr
  tweets_attached_media :: "pystr option"

fun unwrap :: "raw_tweet \<Rightarrow> tweet" where
  \<comment> \<open>\<open>if TWEET in tweet.keys(): tweet = tweet[TWEET]\<close>\<close>
  "unwrap (Wrapped t) = t"
| "unwrap (Bare t) = t"

definition get_tweet_year :: "pystr \<Rightarrow> py_error + pystr" where
  \<comment> \<open>\<open>timestamp_str.split()[5]\<close>\<close>
  "get_tweet_year timestamp_str =
     (let ws = py_split timestamp_str in if 5 < length ws then Inr (ws ! 5) else Inl (IndexError 439))"

subsection \<open>Retweets (lines 442 to 452)\<close>

fun retweet_body_loop :: "pystr list \<Rightarrow> nat \<Rightarrow> pystr \<Rightarrow> pystr" where
  "retweet_body_loop [] words body_markdown = body_markdown"
| "retweet_body_loop (word # ws) words body_markdown =
     (if words > 1 then retweet_body_loop ws words (body_markdown @ word @ [32])
      else retweet_body_loop ws (words + 1) body_markdown)"

definition classify_retweet ::
  "pystr \<Rightarrow> pystr \<Rightarrow> py_error + (TweetType \<times> pystr option \<times> pystr)" where
  "classify_retweet text body_markdown =
     (case py_split text of
        [] \<Rightarrow> Inl (IndexError 442)
      | first # rest \<Rightarrow>
          if first = RT then
            (case rest of
               [] \<Rightarrow> Inl (IndexError 444)
             | retweeted_from_handle # _ \<Rightarrow>
                 Inr (RETWEET,
                      Some (take (length retweeted_from_handle - 1 - 1) (drop 1 retweeted_from_handle)),
                      retweet_body_loop (py_split text) 0 []))
          else Inr (TWEET, None, body_markdown))"

subsection \<open>Links of old tweets (lines 456 to 475)\<close>

definition pretend_url_entity :: "ParseResult \<Rightarrow> pystr \<Rightarrow> nat \<Rightarrow> url_entity" where
  "pretend_url_entity url word i =
     (let netloc_short = (if startswith (netloc url) (u ''www.'') then drop 4 (netloc url)
                          else netloc url);
          path_short = (if length (path url @ [63] @ query url) < 15 then path url
                        else take 15 (path url @ [63] @ query url) @ [ELLIPSIS])
      in \<lparr>ue_url = Some word, expanded_url = Some word,
          display_url = Some (netloc_short @ path_short),
          indices = Some [i, i + length word]\<rparr>)"

fun legacy_links_loop ::
  "env \<Rightarrow> pystr \<Rightarrow> pystr list \<Rightarrow> url_entity list option \<Rightarrow> py_error + url_entity list option" where
  "legacy_links_loop e text [] url_list = Inr url_list"
| "legacy_links_loop e text (word # ws) url_list =
     (case urlparse e word of
        None \<Rightarrow> legacy_links_loop e text ws url_list
      | Some url \<Rightarrow>
          if scheme url \<noteq> [] \<and> netloc url \<noteq> [] \<and> \<not> endswith word [ELLIPSIS] then
            (case url_list of
               None \<Rightarrow> Inl (KeyError 469)
             | Some l \<Rightarrow>
                 (case py_index text word of
                    None \<Rightarrow> Inl (ValueError 473)
                  | Some i \<Rightarrow>
                      legacy_links_loop e text ws (Some (l @ [pretend_url_entity url word i]))))
          else legacy_links_loop e text ws url_list)"

definition legacy_links_apply :: "entities option \<Rightarrow> bool" where
  \<comment> \<open>the condition of line 456\<close>
  "legacy_links_apply ents =
     (case ents of
        None \<Rightarrow> False
      | Some en \<Rightarrow> media en = None \<and> (case ent_urls en of None \<Rightarrow> True | Some l \<Rightarrow> length l = 0))"

definition legacy_links :: "env \<Rightarrow> tweet \<Rightarrow> py_error + entities option" where
  "legacy_links e t =
     (case tweet_entities t of
        None \<Rightarrow> Inr None
      | Some en \<Rightarrow>
          if legacy_links_apply (Some en) then
            bind (legacy_links_loop e (full_text t) (py_split (full_text t)) (ent_urls en))
              (\<lambda>url_list. Inr (Some (en\<lparr>ent_urls := url_list\<rparr>)))
          else Inr (Some en))"

subsection \<open>Expanding links (lines 478 to 482)\<close>

definition expand_url :: "url_entity \<Rightarrow> pystr \<Rightarrow> pystr" where
  "expand_url url body_markdown =
     (case (ue_url url, expanded_url url) of
        (Some short, Some long) \<Rightarrow> py_replace body_markdown short long
      | _ \<Rightarrow> body_markdown)"

definition expand_urls :: "entities option \<Rightarrow> pystr \<Rightarrow> pystr" where
  "expand_urls ents body_markdown =
     (case ents of
        None \<Rightarrow> body_markdown
      | Some en \<Rightarrow>
          (case ent_urls en of None \<Rightarrow> body_markdown | Some l \<Rightarrow> fold expand_url l body_markdown))"

subsection \<open>Replies (lines 486 to 504)\<close>

definition is_name_char :: "nat \<Rightarrow> bool" where
  \<comment> \<open>the class \<open>[0-9A-Za-z_]\<close>\<close>
  "is_name_char c \<longleftrightarrow> (48 \<le> c \<and> c \<le> 57) \<or> (65 \<le> c \<and> c \<le> 90) \<or> (97 \<le> c \<and> c \<le> 122) \<or> c = 95"

definition match_mention :: "pystr \<Rightarrow> nat option" where
  \<comment> \<open>the length of a match of \<open>@[0-9A-Za-z_]* \<close> at the start, if there is one\<close>
  "match_mention s =
     (case s of
        [] \<Rightarrow> None
      | c # cs \<Rightarrow>
          if c = 64 then
            (case dropWhile is_name_char cs of
               [] \<Rightarrow> None
             | d # _ \<Rightarrow> if d = 32 then Some (length (takeWhile is_name_char cs) + 2) else None)
          else None)"

text \<open>
  \<open>re.match(r'^(@[0-9A-Za-z_]* )*', s)[0]\<close>: the star is greedy and one round can end in
  one way only, so the match is the longest run of rounds.
\<close>

function match_replying_to :: "pystr \<Rightarrow> pystr" where
  "match_replying_to s =
     (case match_mention s of
        None \<Rightarrow> []
      | Some n \<Rightarrow> take n s @ match_replying_to (drop n s))"
  by pat_completeness auto
termination
  by (relation "measure length")
     (auto simp: match_mention_def split: list.splits if_splits)

declare match_replying_to.simps [simp del]

definition reply_header ::
  "pystr \<Rightarrow> tweet \<Rightarrow> TweetType \<times> pystr list option \<times> pystr option \<times> pystr \<Rightarrow>
   py_error + (TweetType \<times> pystr list option \<times> pystr option \<times> pystr)" where
  "reply_header owner t st =
     (case st of (type0, replied_to_names_list, replying_to_tweet_by_user, body_markdown) \<Rightarrow>
      (case in_reply_to_status_id t of
         None \<Rightarrow> Inr st
       | Some status_id \<Rightarrow>
           let matched = match_replying_to body_markdown;
               body_markdown = (if matched \<noteq> [] then drop (length matched) body_markdown
                                else body_markdown);
               replying_to = (if matched \<noteq> [] then matched else [64] @ owner);
               names = py_split replying_to
           in bind (case in_reply_to_screen_name t of
                      Val n \<Rightarrow> Inr n
                    | Null \<Rightarrow> Inr (u ''None'')
                    | Absent \<Rightarrow> (case names of [] \<Rightarrow> Inl (IndexError 501) | n # _ \<Rightarrow> Inr n))
                (\<lambda>screen_name.
                   Inr (REPLY, Some names, Some (REPLAY_TO_TWEET screen_name status_id),
                        body_markdown))))"

subsection \<open>Media (lines 507 to 571)\<close>

definition path_head :: "pystr \<Rightarrow> pystr" where
  \<comment> \<open>POSIX \<open>os.path.split(p)[0]\<close>\<close>
  "path_head p =
     (let h = rev (dropWhile (\<lambda>c. c \<noteq> 47) (rev p))
      in if h \<noteq> [] \<and> \<not> list_all (\<lambda>c. c = 47) h then rev (dropWhile (\<lambda>c. c = 47) (rev h)) else h)"

definition rel_url :: "env \<Rightarrow> pystr \<Rightarrow> pystr \<Rightarrow> pystr" where
  "rel_url e media_path document_path =
     py_replace (relpath e media_path (path_head document_path)) [92] [47]"

definition copy_if_missing :: "nat \<Rightarrow> env \<Rightarrow> pystr \<Rightarrow> pystr \<Rightarrow> parser \<Rightarrow> py_error + parser" where
  \<comment> \<open>\<open>if not os.path.isfile(dst): shutil.copy(src, dst)\<close>, at the given line\<close>
  "copy_if_missing line e src dst s =
     (if dst \<in> files s then Inr s
      else if copy_fails e src dst then Inl (OSError line)
      else Inr (s\<lparr>files := insert dst (files s)\<rparr>))"

text \<open>
  The loop of lines 549 to 554 over the variants, started at
  \<open>best_quality_url = ''\<close> and \<open>best_bitrate = -1\<close>.
\<close>

fun best_variant_loop :: "env \<Rightarrow> variant list \<Rightarrow> pystr \<times> int \<Rightarrow> py_error + (pystr \<times> int)" where
  "best_variant_loop e [] best = Inr best"
| "best_variant_loop e (v # vs) (best_quality_url, best_bitrate) =
     (case bitrate v of
        None \<Rightarrow> best_variant_loop e vs (best_quality_url, best_bitrate)
      | Some b \<Rightarrow>
          (case py_int e b of
             None \<Rightarrow> Inl (ValueError 551)
           | Some n \<Rightarrow>
               if n > best_bitrate then best_variant_loop e vs (variant_url v, n)
               else best_variant_loop e vs (best_quality_url, best_bitrate)))"

type_synonym media_sources = "(pystr \<times> pystr) list"

definition video_source ::
  "env \<Rightarrow> ext_media \<Rightarrow> pystr \<Rightarrow> pystr \<Rightarrow> pystr \<Rightarrow> pystr \<Rightarrow> pystr \<Rightarrow>
   media_sources \<times> parser \<Rightarrow> py_error + (media_sources \<times> parser)" where
  \<comment> \<open>lines 545 to 564, for one matched file\<close>
  "video_source e em original_url original_expanded_url archive_media_path media_link local_path st =
     (case st of (sources, s) \<Rightarrow>
        (case em_video_info em of
           None \<Rightarrow> Inr (sources, s)
         | Some vi \<Rightarrow>
             (case variants vi of
                None \<Rightarrow> Inr (sources, s)
              | Some vs \<Rightarrow>
                  bind (best_variant_loop e vs ([], - 1)) (\<lambda>best.
                    if snd best = - 1 then
                      Inr (sources,
                           logging (Warning_no_url original_url original_expanded_url
                                      archive_media_path media_link) s)
                    else Inr (sources @ [(local_path, fst best)], s)))))"

fun archive_media_paths_loop ::
  "env \<Rightarrow> PathConfig \<Rightarrow> ext_media \<Rightarrow> pystr \<Rightarrow> pystr \<Rightarrow> pystr list \<Rightarrow>
   pystr \<times> media_sources \<times> parser \<Rightarrow> py_error + (pystr \<times> media_sources \<times> parser)" where
  "archive_media_paths_loop e pc em original_url original_expanded_url [] st = Inr st"
| "archive_media_paths_loop e pc em original_url original_expanded_url (archive_media_path # rest)
     (markdown, sources, s) =
     (let archive_media_filename = basename archive_media_path;
          file_output_media = path_join (dir_output_media pc) archive_media_filename;
          media_link = rel_url e file_output_media (example_file_output_tweets pc)
      in bind (copy_if_missing 541 e archive_media_path file_output_media s) (\<lambda>s1.
         bind (video_source e em original_url original_expanded_url archive_media_path media_link
                 (path_join (dir_output_media pc) archive_media_filename) (sources, s1)) (\<lambda>r.
           archive_media_paths_loop e pc em original_url original_expanded_url rest
             (markdown @ media_link @ u '' > Your browser does not support the video tag'',
              fst r, snd r))))"

definition convert_media ::
  "env \<Rightarrow> PathConfig \<Rightarrow> pystr \<Rightarrow> pystr \<Rightarrow> ext_media \<Rightarrow>
   pystr \<times> media_sources \<times> parser \<Rightarrow> py_error + (pystr \<times> media_sources \<times> parser)" where
  \<comment> \<open>the body of the loop of line 511\<close>
  "convert_media e pc tweet_id_str original_url em st =
     (case st of (markdown, sources, s) \<Rightarrow>
        (case (em_url em, media_url em) of
           (Some _, Some original_expanded_url) \<Rightarrow>
             let original_filename = basename original_expanded_url;
                 archive_media_filename = tweet_id_str @ [45] @ original_filename;
                 archive_media_path = path_join (dir_input_media pc) archive_media_filename;
                 file_output_media = path_join (dir_output_media pc) archive_media_filename;
                 media_link = rel_url e file_output_media (example_file_output_tweets pc)
             in if archive_media_path \<in> files s then
                  bind (copy_if_missing 523 e archive_media_path file_output_media s) (\<lambda>s1.
                    Inr (markdown @ media_link,
                         sources @ [(path_join (dir_output_media pc) archive_media_filename,
                                     BEST_QUALITY_URL original_filename)],
                         s1))
                else
                  let archive_media_paths =
                        glob e (files s) (path_join (dir_input_media pc) (tweet_id_str @ [42]))
                  in if length archive_media_paths > 0 then
                       archive_media_paths_loop e pc em original_url original_expanded_url
                         archive_media_paths (markdown, sources, s)
                     else
                       Inr (markdown @ original_url, sources,
                            logging (Warning_missing_local_file archive_media_path original_url) s)
         | _ \<Rightarrow> Inr st))"

fun media_loop ::
  "env \<Rightarrow> PathConfig \<Rightarrow> pystr \<Rightarrow> pystr \<Rightarrow> ext_media list \<Rightarrow>
   pystr \<times> media_sources \<times> parser \<Rightarrow> py_error + (pystr \<times> media_sources \<times> parser)" where
  "media_loop e pc tweet_id_str original_url [] st = Inr st"
| "media_loop e pc tweet_id_str original_url (em # ems) st =
     bind (convert_media e pc tweet_id_str original_url em st)
       (media_loop e pc tweet_id_str original_url ems)"

definition has_media :: "tweet \<Rightarrow> (media_entity list \<times> ext_media list) option" where
  \<comment> \<open>the condition of line 507, with the two lists\<close>
  "has_media t =
     (case tweet_entities t of
        None \<Rightarrow> None
      | Some en \<Rightarrow>
          (case media en of
             None \<Rightarrow> None
           | Some ml \<Rightarrow>
               (case tweet_extended_entities t of
                  None \<Rightarrow> None
                | Some ext \<Rightarrow>
                    (case ext_media_list ext of None \<Rightarrow> None | Some xs \<Rightarrow> Some (ml, xs)))))"

definition replace_media ::
  "env \<Rightarrow> tweet \<Rightarrow> pystr \<Rightarrow> media_sources \<times> parser \<Rightarrow>
   py_error + (pystr \<times> pystr option \<times> media_sources \<times> parser)" where
  "replace_media e t body_markdown st =
     (case has_media t of
        None \<Rightarrow> Inr (body_markdown, None, st)
      | Some (ml, xs) \<Rightarrow>
          (case ml of
             [] \<Rightarrow> Inl (IndexError 509)
           | m0 # _ \<Rightarrow>
               bind (media_loop e (paths (snd st)) (id_str t) (me_url m0) xs ([], st)) (\<lambda>r.
                 Inr (py_replace body_markdown (me_url m0) [], Some (fst r), snd r))))"

subsection \<open>Ids and handles found in a tweet (lines 577 to 591)\<close>

definition register_reply_target :: "env \<Rightarrow> tweet \<Rightarrow> parser \<Rightarrow> py_error + parser" where
  "register_reply_target e t s =
     (case in_reply_to_user_id t of
        None \<Rightarrow> Inr s
      | Some reply_to_id \<Rightarrow>
          (case in_reply_to_screen_name t of
             Val h \<Rightarrow>
               (case py_int e reply_to_id of
                  None \<Rightarrow> Inl (ValueError 580)
                | Some n \<Rightarrow> if n \<ge> 0 then Inr (register Discovery reply_to_id h s) else Inr s)
           | _ \<Rightarrow> Inr s))"

definition register_mention :: "env \<Rightarrow> mention option \<Rightarrow> parser \<Rightarrow> py_error + parser" where
  \<comment> \<open>the body of the loop of line 585\<close>
  "register_mention e mo s =
     (case mo of
        None \<Rightarrow> Inr s
      | Some m \<Rightarrow>
          (case mention_id m of
             None \<Rightarrow> Inr s
           | Some mentioned_id \<Rightarrow>
               (case mention_screen_name m of
                  Absent \<Rightarrow> Inr s
                | Null \<Rightarrow>
                    (case py_int e mentioned_id of
                       None \<Rightarrow> Inl (ValueError 588)
                     | Some n \<Rightarrow> Inr s)
                | Val h \<Rightarrow>
                    (case py_int e mentioned_id of
                       None \<Rightarrow> Inl (ValueError 588)
                     | Some n \<Rightarrow>
                         if n \<ge> 0 then Inr (register Discovery mentioned_id h s) else Inr s))))"

fun mentions_loop :: "env \<Rightarrow> mention option list \<Rightarrow> parser \<Rightarrow> py_error + parser" where
  "mentions_loop e [] s = Inr s"
| "mentions_loop e (mo # ms) s = bind (register_mention e mo s) (mentions_loop e ms)"

definition register_mentions :: "env \<Rightarrow> tweet \<Rightarrow> parser \<Rightarrow> py_error + parser" where
  "register_mentions e t s =
     (case tweet_entities t of
        None \<Rightarrow> Inr s
      | Some en \<Rightarrow> (case user_mentions en of Val ms \<Rightarrow> mentions_loop e ms s | _ \<Rightarrow> Inr s))"

subsection \<open>The whole conversion and the loop over the tweets\<close>

definition convert_tweet ::
  "env \<Rightarrow> raw_tweet \<Rightarrow> media_sources \<times> parser \<Rightarrow> py_error + (Tweet \<times> media_sources \<times> parser)" where
  "convert_tweet e raw st =
     (let t = unwrap raw;
          timestamp_str = created_at t;
          body0 = join_words (py_split (full_text t));
          tweet_id_str = id_str t
      in bind (get_tweet_year timestamp_str) (\<lambda>year.
         bind (classify_retweet (full_text t) body0) (\<lambda>(type1, retweeted, body1).
         bind (legacy_links e t) (\<lambda>ents.
         bind (reply_header (user_name (snd st)) t (type1, None, None, expand_urls ents body1))
           (\<lambda>(type2, names, target, body2).
         bind (replace_media e t body2 st) (\<lambda>(body3, attached, st3).
         bind (register_reply_target e t (snd st3)) (\<lambda>s4.
         bind (register_mentions e t s4) (\<lambda>s5.
           Inr (\<lparr>tweet_year = year, tweet_type = type2, retweeted_from = retweeted,
                 replied_to_names = names, replying_to_tweet = target, tweet_data = body3,
                 tweeted_at = timestamp_str,
                 tweet_url = TWEET_URL (user_name (snd st)) tweet_id_str,
                 tweets_attached_media = attached\<rparr>,
                fst st3, s5)))))))))"

fun tweets_loop ::
  "env \<Rightarrow> raw_tweet list \<Rightarrow> Tweet list \<times> media_sources \<times> parser \<Rightarrow>
   py_error + (Tweet list \<times> media_sources \<times> parser)" where
  "tweets_loop e [] st = Inr st"
| "tweets_loop e (raw # rest) (tweets, st) =
     bind (convert_tweet e raw st) (\<lambda>(tw, st1). tweets_loop e rest (tweets @ [tw], st1))"

definition get_tweets :: "env \<Rightarrow> archive \<Rightarrow> parser \<Rightarrow> py_error + (Tweet list \<times> parser)" where
  \<comment> \<open>the files in turn, the tweets of each file in turn\<close>
  "get_tweets e a s =
     bind (tweets_loop e (concat (tweets_json a)) ([], [], s))
       (\<lambda>(tweets, sources, s1). Inr (tweets, s1))"

section \<open>Follow edges\<close>

record User =
  user_handle :: "pystr option"
  user_profile_url :: "pystr option"

definition follow_user :: "parser \<Rightarrow> pystr \<Rightarrow> User" where
  \<comment> \<open>lines 618 and 619, and the same at lines 634 and 635\<close>
  "follow_user s following_id =
     \<lparr>user_handle = Some (case users s following_id of Some ud \<Rightarrow> handle ud | None \<Rightarrow> UNKNOWN_HANDLE),
      user_profile_url = Some (USER_URL_TEMPLATE following_id)\<rparr>"

definition get_following_users :: "archive \<Rightarrow> parser \<Rightarrow> User list" where
  "get_following_users a s =
     map (follow_user s) (List.map_filter following_account_id (following_json a))"

definition get_followers_users :: "archive \<Rightarrow> parser \<Rightarrow> User list" where
  "get_followers_users a s =
     map (follow_user s) (List.map_filter follower_account_id (follower_json a))"

section \<open>Direct messages\<close>

record DirectMessage =
  dm_from :: pystr
  dm_to :: pystr
  dm_data :: pystr
  dm_at :: pystr

record GroupDirectMessage =
  group_dm_from :: pystr
  group_dm_data :: pystr
  group_dm_at :: pystr

record GroupDirectMessages =
  group_name :: "pystr option"
  group_dms :: "GroupDirectMessage list option"
  group_participant :: "pystr list"

definition message_handle :: "parser \<Rightarrow> pystr \<Rightarrow> pystr" where
  \<comment> \<open>\<open>self._users[i].handle if i in self._users else self._user_id_url_template.format(i)\<close>\<close>
  "message_handle s i = (case users s i of Some ud \<Rightarrow> handle ud | None \<Rightarrow> USER_URL_TEMPLATE i)"

definition expand_dm_url :: "dm_url \<Rightarrow> pystr \<Rightarrow> pystr" where
  "expand_dm_url url body =
     (case (dm_url_url url, expanded url) of
        (Some short, Some long) \<Rightarrow> py_replace body short long
      | _ \<Rightarrow> body)"

definition expand_dm_urls :: "message_create \<Rightarrow> pystr \<Rightarrow> pystr" where
  "expand_dm_urls mc body = (case urls mc of None \<Rightarrow> body | Some l \<Rightarrow> fold expand_dm_url l body)"

text \<open>
  The two message parsers treat media alike, up to the directory, the markup of an image,
  the level of the log entry and the lines: \<open>grp\<close> tells which parser it is.
\<close>

fun dm_video_loop ::
  "bool \<Rightarrow> env \<Rightarrow> PathConfig \<Rightarrow> pystr \<Rightarrow> pystr list \<Rightarrow> pystr \<times> parser \<Rightarrow> py_error + (pystr \<times> parser)" where
  "dm_video_loop grp e pc original_expanded_url [] st = Inr st"
| "dm_video_loop grp e pc original_expanded_url (archive_media_path # rest) (body_markdown, s) =
     (let archive_media_filename = basename archive_media_path;
          media_link = path_join (dir_output_media pc) archive_media_filename
      in bind (copy_if_missing (if grp then 793 else 699) e archive_media_path media_link s) (\<lambda>s1.
           dm_video_loop grp e pc original_expanded_url rest
             (py_replace body_markdown original_expanded_url
                (media_link @ u '' Your browser does not support the video tag''), s1)))"

definition dm_media ::
  "bool \<Rightarrow> env \<Rightarrow> PathConfig \<Rightarrow> message_create \<Rightarrow> pystr \<times> parser \<Rightarrow> py_error + (pystr \<times> parser)" where
  \<comment> \<open>lines 670 to 706 and lines 764 to 800; the condition asks for one media url\<close>
  "dm_media grp e pc mc st =
     (case st of (body_markdown, s) \<Rightarrow>
      (case (mediaUrls mc, urls mc) of
         (Some [media_url0], Some url_list) \<Rightarrow>
           (case url_list of
              [] \<Rightarrow> Inl (IndexError (if grp then 767 else 673))
            | url0 # _ \<Rightarrow>
                (case expanded url0 of
                   None \<Rightarrow> Inl (KeyError (if grp then 767 else 673))
                 | Some original_expanded_url \<Rightarrow>
                     let message_id = mc_id mc;
                         media_hash_and_type = last (split_on 47 media_url0);
                         archive_media_filename = message_id @ [45] @ media_hash_and_type;
                         new_url = path_join (dir_output_media pc) archive_media_filename;
                         media_dir = path_join (dir_input_data pc)
                           (if grp then DIRECT_MESSAGES_GROUP_MEDIA else DIRECT_MESSAGE_MEDIA);
                         archive_media_path = path_join media_dir archive_media_filename
                     in if archive_media_path \<in> files s then
                          bind (copy_if_missing (if grp then 778 else 684) e archive_media_path new_url s)
                            (\<lambda>s1. Inr (py_replace body_markdown original_expanded_url
                                         (if grp then u ''\<newline>![]('' @ new_url @ u '')\<newline>''
                                          else new_url),
                                       s1))
                        else
                          let archive_media_paths =
                                glob e (files s) (path_join media_dir (message_id @ [42]))
                          in if length archive_media_paths > 0 then
                               dm_video_loop grp e pc original_expanded_url archive_media_paths
                                 (body_markdown, s)
                             else
                               Inr (body_markdown,
                                    if grp
                                    then logging (Warning_missing_local_file archive_media_path
                                                    original_expanded_url) s
                                    else s)))
       | _ \<Rightarrow> Inr st))"

definition convert_dm ::
  "env \<Rightarrow> message_create \<Rightarrow> parser \<Rightarrow> py_error + (DirectMessage option \<times> parser)" where
  \<comment> \<open>lines 654 to 718\<close>
  "convert_dm e mc s =
     (case (senderId mc, recipientId mc, mc_text mc, createdAt mc) of
        (Some from_id, Some to_id, Some txt, Some created) \<Rightarrow>
          bind (dm_media False e (paths s) mc (join_words (py_split (expand_dm_urls mc txt)), s))
            (\<lambda>(body_markdown, s1).
               Inr (Some \<lparr>dm_from = message_handle s1 from_id, dm_to = message_handle s1 to_id,
                           dm_data = py_join [10] (splitlines body_markdown), dm_at = created\<rparr>,
                    s1))
      | _ \<Rightarrow> Inr (None, s))"

fun dm_messages_loop ::
  "env \<Rightarrow> message list \<Rightarrow> DirectMessage list \<times> parser \<Rightarrow> py_error + (DirectMessage list \<times> parser)" where
  "dm_messages_loop e [] st = Inr st"
| "dm_messages_loop e (MessageCreate mc # ms) (dms, s) =
     bind (convert_dm e mc s) (\<lambda>(dm, s1).
       dm_messages_loop e ms (case dm of None \<Rightarrow> dms | Some d \<Rightarrow> dms @ [d], s1))"
| "dm_messages_loop e (_ # ms) st = dm_messages_loop e ms st"

definition conversation_messages :: "conversation \<Rightarrow> message list" where
  \<comment> \<open>the messages that the loops of lines 649 to 652 reach\<close>
  "conversation_messages c =
     (case dmConversation c of
        None \<Rightarrow> []
      | Some d \<Rightarrow>
          (case conversationId d of
             None \<Rightarrow> []
           | Some _ \<Rightarrow> (case messages d of None \<Rightarrow> [] | Some ms \<Rightarrow> ms)))"

fun dm_conversations_loop ::
  "env \<Rightarrow> conversation list \<Rightarrow> DirectMessage list \<times> parser \<Rightarrow> py_error + (DirectMessage list \<times> parser)" where
  "dm_conversations_loop e [] st = Inr st"
| "dm_conversations_loop e (c # cs) st =
     bind (dm_messages_loop e (conversation_messages c) st) (dm_conversations_loop e cs)"

definition get_direct_messages :: "env \<Rightarrow> archive \<Rightarrow> parser \<Rightarrow> py_error + (DirectMessage list \<times> parser)" where
  "get_direct_messages e a s = dm_conversations_loop e (dms_json a) ([], s)"

section \<open>Group conversations\<close>

definition convert_group_dm ::
  "env \<Rightarrow> message_create \<Rightarrow> parser \<Rightarrow> py_error + (GroupDirectMessage option \<times> parser)" where
  \<comment> \<open>lines 747 to 808\<close>
  "convert_group_dm e mc s =
     (case (senderId mc, mc_text mc, createdAt mc) of
        (Some from_id, Some txt, Some created) \<Rightarrow>
          bind (dm_media True e (paths s) mc (join_words (py_split (expand_dm_urls mc txt)), s))
            (\<lambda>(body_markdown, s1).
               Inr (Some \<lparr>group_dm_from = message_handle s1 from_id,
                           group_dm_data = py_join [10, 62] (splitlines body_markdown),
                           group_dm_at = created\<rparr>,
                    s1))
      | _ \<Rightarrow> Inr (None, s))"

fun group_messages_loop ::
  "env \<Rightarrow> message list \<Rightarrow> pystr option \<times> GroupDirectMessage list \<times> parser \<Rightarrow>
   py_error + (pystr option \<times> GroupDirectMessage list \<times> parser)" where
  "group_messages_loop e [] st = Inr st"
| "group_messages_loop e (MessageCreate mc # ms) (gname, gdms, s) =
     bind (convert_group_dm e mc s) (\<lambda>(dm, s1).
       group_messages_loop e ms (gname, case dm of None \<Rightarrow> gdms | Some d \<Rightarrow> gdms @ [d], s1))"
| "group_messages_loop e (ConversationNameUpdate upd # ms) (gname, gdms, s) =
     group_messages_loop e ms (case cnu_name upd of None \<Rightarrow> gname | Some n \<Rightarrow> Some n, gdms, s)"
| "group_messages_loop e (_ # ms) st = group_messages_loop e ms st"

definition group_participants :: "env \<Rightarrow> conversation \<Rightarrow> parser \<Rightarrow> py_error + pystr list" where
  \<comment> \<open>lines 737 to 742: the set of ids is complete before the first id is resolved\<close>
  "group_participants e c s =
     bind (find_group_dm_conversation_participant_ids c) (\<lambda>participants.
       Inr (map (message_handle s) (py_set_iter e participants)))"

definition convert_group_conversation ::
  "env \<Rightarrow> conversation \<Rightarrow> parser \<Rightarrow> py_error + (GroupDirectMessages option \<times> parser)" where
  \<comment> \<open>lines 732 to 815; a conversation that fails the test of line 735 gives no entry\<close>
  "convert_group_conversation e c s =
     (case dmConversation c of
        None \<Rightarrow> Inr (None, s)
      | Some d \<Rightarrow>
          (case conversationId d of
             None \<Rightarrow> Inr (None, s)
           | Some _ \<Rightarrow>
               bind (group_participants e c s) (\<lambda>parts.
               bind (group_messages_loop e (conversation_messages c) (None, [], s))
                 (\<lambda>(gname, gdms, s1).
                    Inr (Some \<lparr>group_name = gname, group_dms = Some gdms,
                               group_participant = parts\<rparr>,
                         s1)))))"

fun group_conversations_loop ::
  "env \<Rightarrow> conversation list \<Rightarrow> GroupDirectMessages list \<times> parser \<Rightarrow>
   py_error + (GroupDirectMessages list \<times> parser)" where
  "group_conversations_loop e [] st = Inr st"
| "group_conversations_loop e (c # cs) (acc, s) =
     bind (convert_group_conversation e c s) (\<lambda>(g, s1).
       group_conversations_loop e cs (case g of None \<Rightarrow> acc | Some gd \<Rightarrow> acc @ [gd], s1))"

definition get_group_direct_messages ::
  "env \<Rightarrow> archive \<Rightarrow> parser \<Rightarrow> py_error + (GroupDirectMessages list \<times> parser)" where
  "get_group_direct_messages e a s = group_conversations_loop e (group_dms_json a) ([], s)"

section \<open>The pipeline\<close>

record TwitterDataParser =
  self :: parser
  tweets :: "Tweet list"
  following_users :: "User list"
  followers_users :: "User list"
  direct_messages :: "DirectMessage list"
  group_direct_messages :: "GroupDirectMessages list"

definition new_parser :: "pystr \<Rightarrow> PathConfig \<Rightarrow> pystr set \<Rightarrow> parser" where
  \<comment> \<open>the state after line 129: \<open>self._users = {}\<close>\<close>
  "new_parser owner pc fs =
     \<lparr>user_name = owner, paths = pc, users = Map.empty, reg_log = [], requests = [],
      files = fs, logged = []\<rparr>"

definition init :: "env \<Rightarrow> archive \<Rightarrow> parser \<Rightarrow> py_error + TwitterDataParser" where
  \<comment> \<open>lines 135 to 150, in the order of the source\<close>
  "init e a s0 =
     bind (get_tweets e a s0) (\<lambda>(tws, s1).
     bind (bulk_look_up_for_user_handles e a s1) (\<lambda>s2.
     bind (get_direct_messages e a s2) (\<lambda>(dms, s3).
     bind (get_group_direct_messages e a s3) (\<lambda>(gdms, s4).
       Inr \<lparr>self = s4, tweets = tws,
            following_users = get_following_users a s2,
            followers_users = get_followers_users a s2,
            direct_messages = dms, group_direct_messages = gdms\<rparr>))))"

section \<open>What a stage may change\<close>

text \<open>
  \<open>same_registry s s1\<close>: from \<open>s\<close> to \<open>s1\<close> nothing was written to the registry and nothing
  was sent; \<open>discovery_step s s1\<close>: the only writes to the registry were made while
  converting tweets; \<open>lookup_step s s1\<close>: the only writes were made by the bulk lookup.
\<close>

definition same_registry :: "parser \<Rightarrow> parser \<Rightarrow> bool" where
  "same_registry s s1 \<longleftrightarrow>
     users s1 = users s \<and> reg_log s1 = reg_log s \<and> requests s1 = requests s \<and>
     user_name s1 = user_name s \<and> paths s1 = paths s"

definition discovery_step :: "parser \<Rightarrow> parser \<Rightarrow> bool" where
  "discovery_step s s1 \<longleftrightarrow>
     requests s1 = requests s \<and> user_name s1 = user_name s \<and> paths s1 = paths s \<and>
     (\<exists>ds. reg_log s1 = reg_log s @ ds \<and> list_all (\<lambda>x. fst x = Discovery) ds)"

definition lookup_step :: "parser \<Rightarrow> parser \<Rightarrow> bool" where
  "lookup_step s s1 \<longleftrightarrow>
     user_name s1 = user_name s \<and> paths s1 = paths s \<and>
     (\<exists>bs. reg_log s1 = reg_log s @ bs \<and> list_all (\<lambda>x. fst x = BulkLookup) bs)"



section \<open>Example inputs\<close>

text \<open>
  An environment without network and without media files, where a set is iterated in
  the order of insertion.
\<close>

definition ex_env :: env where
  "ex_env =
     \<lparr>urlparse = (\<lambda>w. None), py_int = (\<lambda>s. None), set_rank = (\<lambda>xs x. 0),
      relpath = (\<lambda>m d. m), glob = (\<lambda>fs pat. []), copy_fails = (\<lambda>src dst. False),
      guest_activate = None, users_lookup = (\<lambda>tok batch. None)\<rparr>"

definition ex_paths :: PathConfig where
  "ex_paths =
     \<lparr>dir_input_data = u ''data'', dir_input_media = u ''data/tweets_media'',
      dir_output_media = u ''out/media'', example_file_output_tweets = u ''out/t/2020/x.html''\<rparr>"

definition ex_parser :: parser where
  "ex_parser =
     \<lparr>user_name = u ''owner'', paths = ex_paths, users = Map.empty, reg_log = [],
      requests = [], files = {}, logged = []\<rparr>"

definition ex_conversation :: "pystr \<Rightarrow> message list \<Rightarrow> conversation" where
  "ex_conversation cid ms =
     \<lparr>dmConversation = Some \<lparr>conversationId = Some cid, messages = Some ms\<rparr>\<rparr>"

definition ex_archive :: archive where
  "ex_archive =
     \<lparr>tweets_json = [],
      following_json = [\<lparr>following = Some \<lparr>accountId = Some (u ''1'')\<rparr>\<rparr>],
      follower_json = [\<lparr>follower = Some \<lparr>accountId = Some (u ''2'')\<rparr>\<rparr>],
      dms_json = [ex_conversation (u ''1-3'') []],
      group_dms_json = []\<rparr>"

text \<open>A tweet without entities, and \<open>int\<close> on decimal numerals for the examples.\<close>

definition ex_tweet :: "pystr \<Rightarrow> tweet" where
  "ex_tweet txt =
     \<lparr>created_at = u ''Tue Mar 19 14:05:17 +0000 2019'', full_text = txt, id_str = u ''1'',
      tweet_entities = None, tweet_extended_entities = None, in_reply_to_status_id = None,
      in_reply_to_screen_name = Absent, in_reply_to_user_id = None\<rparr>"



definition ex_message :: "pystr \<Rightarrow> pystr \<Rightarrow> pystr \<Rightarrow> message_create" where
  "ex_message sender recipient txt =
     \<lparr>senderId = Some sender, recipientId = Some recipient, mc_text = Some txt,
      createdAt = Some (u ''2022-01-27T15:58:52.744Z''), urls = Some [], mediaUrls = Some [],
      mc_id = u ''10''\<rparr>"

definition ex_hello :: Tweet where
  \<comment> \<open>what \<open>ex_tweet (u ''hello'')\<close> converts to\<close>
  "ex_hello =
     \<lparr>tweet_year = u ''2019'', tweet_type = TWEET, retweeted_from = None, replied_to_names = None,
      replying_to_tweet = None, tweet_data = u ''hello '',
      tweeted_at = u ''Tue Mar 19 14:05:17 +0000 2019'',
      tweet_url = u ''https://twitter.com/owner/status/1'', tweets_attached_media = None\<rparr>"

definition ex_follow_archive :: archive where
  "ex_follow_archive =
     ex_archive\<lparr>following_json := [\<lparr>following = Some \<lparr>accountId = Some (u ''999'')\<rparr>\<rparr>],
                follower_json := [\<lparr>follower = Some \<lparr>accountId = Some (u ''999'')\<rparr>\<rparr>]\<rparr>"

definition ex_group_conversation :: conversation where
  "ex_group_conversation =
     ex_conversation (u ''g'') [MessageCreate (ex_message (u ''999'') (u ''1'') (u ''hi''))]"

definition ex_dm :: DirectMessage where
  \<comment> \<open>what \<open>ex_message (u ''999'') (u ''1'') (u ''hi'')\<close> converts to with an empty registry\<close>
  "ex_dm =
     \<lparr>dm_from = u ''https://twitter.com/i/user/999'', dm_to = u ''https://twitter.com/i/user/1'',
      dm_data = u ''hi '', dm_at = u ''2022-01-27T15:58:52.744Z''\<rparr>"

definition ex_group_dm :: GroupDirectMessage where
  "ex_group_dm =
     \<lparr>group_dm_from = u ''https://twitter.com/i/user/999'', group_dm_data = u ''hi '',
      group_dm_at = u ''2022-01-27T15:58:52.744Z''\<rparr>"







text \<open>
  An environment whose sets list shorter strings first, and a group conversation with a
  message of the user \<open>20\<close> followed by a message of the user \<open>1\<close>.
\<close>

definition ex_len_env :: env where
  "ex_len_env = ex_env\<lparr>set_rank := (\<lambda>xs x. length x)\<rparr>"

definition ex_two_senders :: conversation where
  "ex_two_senders =
     ex_conversation (u ''g'')
       [MessageCreate (ex_message (u ''20'') (u ''1'') (u ''hi'')),
        MessageCreate (ex_message (u ''1'') (u ''20'') (u ''yo''))]"

definition ex_two_group :: GroupDirectMessages where
  \<comment> \<open>what \<open>ex_two_senders\<close> converts to in \<open>ex_len_env\<close> with an empty registry\<close>
  "ex_two_group =
     \<lparr>group_name = None,
      group_dms = Some
        [\<lparr>group_dm_from = u ''https://twitter.com/i/user/20'', group_dm_data = u ''hi '',
          group_dm_at = u ''2022-01-27T15:58:52.744Z''\<rparr>,
         \<lparr>group_dm_from = u ''https://twitter.com/i/user/1'', group_dm_data = u ''yo '',
          group_dm_at = u ''2022-01-27T15:58:52.744Z''\<rparr>],
      group_participant = [u ''https://twitter.com/i/user/1'', u ''https://twitter.com/i/user/20'']\<rparr>"

section \<open>Properties\<close>

subsection \<open>Exceptions propagate\<close>

lemma bind_eq_Inr: "bind m f = Inr y \<longleftrightarrow> (\<exists>x. m = Inr x \<and> f x = Inr y)"
  by (cases m) auto

lemma isl_bind: "isl m \<Longrightarrow> isl (bind m f)"
  by (cases m) auto

lemmas ex_simps = convert_tweet_def ex_tweet_def ex_env_def ex_parser_def get_tweet_year_def
  py_split_def py_isspace_def classify_retweet_def RT_def legacy_links_def expand_urls_def
  reply_header_def replace_media_def has_media_def register_reply_target_def
  register_mentions_def TWEET_URL_def join_words_def u_def

subsection \<open>What each stage changes\<close>

lemma same_registry_refl [simp]: "same_registry s s"
  by (simp add: same_registry_def)


lemma same_registry_logging [simp]: "same_registry s (logging l s)"
  by (simp add: same_registry_def logging_def)

lemma same_registry_logging_iff [simp]: "same_registry s (logging l s1) = same_registry s s1"
  by (simp add: same_registry_def logging_def)







lemma discovery_step_refl [simp]: "discovery_step s s"
  by (simp add: discovery_step_def)



lemma discovery_register [simp]: "discovery_step s (register Discovery i h s)"
  by (simp add: discovery_step_def register_def)



















lemma lookup_step_refl [simp]: "lookup_step s s"
  by (simp add: lookup_step_def)




subsection \<open>An example run\<close>











subsection \<open>The permalink\<close>

lemma ex_hello_converts:
  "convert_tweet ex_env (Bare (ex_tweet (u ''hello''))) ([], ex_parser) = Inr (ex_hello, [], ex_parser)"
  by (simp add: ex_simps ex_hello_def)

text \<open>
  C6, as stated: the permalink of a post is \<open>https://twitter.com/{owner_handle}/{post_id}\<close>.
  It fails on the tweet with id \<open>1\<close> of the owner \<open>owner\<close>, whose permalink is
  \<open>https://twitter.com/owner/status/1\<close>.
\<close>

theorem tweet_url_without_status_counterexample:
  "convert_tweet ex_env (Bare (ex_tweet (u ''hello''))) ([], ex_parser) = Inr (ex_hello, [], ex_parser) \<and>
   tweet_url ex_hello \<noteq>
     u ''https://twitter.com/'' @ user_name ex_parser @ u ''/'' @ id_str (ex_tweet (u ''hello''))"
  by (simp add: ex_hello_converts) (simp add: ex_hello_def ex_parser_def ex_tweet_def u_def)

text \<open>
  C6, amended: for every post that converts, whatever its classification, the permalink is
  \<open>https://twitter.com/{owner_handle}/status/{post_id}\<close>, with the handle of the archive's
  owner and the id of the post.
\<close>

theorem tweet_url_template:
  assumes "convert_tweet e raw st = Inr (tw, st')"
  shows "tweet_url tw =
    u ''https://twitter.com/'' @ user_name (snd st) @ u ''/status/'' @ id_str (unwrap raw)"
  using assms
  by (auto simp: convert_tweet_def Let_def bind_eq_Inr TWEET_URL_def split: prod.splits)

theorem tweet_url_template_witness:
  "convert_tweet ex_env (Bare (ex_tweet (u ''hello''))) ([], ex_parser) = Inr (ex_hello, [], ex_parser) \<and>
   tweet_url ex_hello = u ''https://twitter.com/owner/status/1''"
  using tweet_url_template [OF ex_hello_converts]
  by (simp add: ex_hello_converts ex_hello_def)

subsection \<open>A body without a token\<close>

lemma split_acc_Nil: "split_acc cur s = [] \<longleftrightarrow> cur = [] \<and> (\<forall>c \<in> set s. py_isspace c)"
  by (induction s arbitrary: cur) auto

lemma py_split_Nil: "py_split s = [] \<longleftrightarrow> (\<forall>c \<in> set s. py_isspace c)"
  by (simp add: py_split_def split_acc_Nil)

lemma convert_tweet_blank:
  assumes "\<forall>c \<in> set (full_text (unwrap raw)). py_isspace c"
    and "5 < length (py_split (created_at (unwrap raw)))"
  shows "convert_tweet e raw st = Inl (IndexError 442)"
proof -
  from assms(1) have "py_split (full_text (unwrap raw)) = []" by (simp add: py_split_Nil)
  then have "classify_retweet (full_text (unwrap raw)) b = Inl (IndexError 442)" for b
    by (simp add: classify_retweet_def)
  with assms(2) show ?thesis
    by (simp add: convert_tweet_def Let_def get_tweet_year_def)
qed

lemma tweets_loop_fails:
  assumes "raw \<in> set raws" and "\<And>st. isl (convert_tweet e raw st)"
  shows "isl (tweets_loop e raws acc)"
  using assms(1)
proof (induction raws arbitrary: acc)
  case Nil
  then show ?case by simp
next
  case (Cons r rs)
  obtain tws st where acc: "acc = (tws, st)" by (cases acc)
  show ?case
  proof (cases "convert_tweet e r st")
    case (Inl err)
    then show ?thesis by (simp add: acc)
  next
    case (Inr res)
    with assms(2) [of st] have "r \<noteq> raw" by auto
    with Cons.prems have "raw \<in> set rs" by auto
    from Cons.IH [OF this] Inr show ?thesis
      by (cases res) (simp add: acc)
  qed
qed

text \<open>
  C9. A raw post whose timestamp has its six tokens and whose \<open>full_text\<close> is empty or
  holds whitespace only does not convert: the read of the first token at line 442 raises
  IndexError, nothing catches it, and a run over an archive with such a post ends in an
  exception.
\<close>

theorem blank_full_text_raises_IndexError:
  assumes "\<forall>c \<in> set (full_text (unwrap raw)). py_isspace c"
    and "5 < length (py_split (created_at (unwrap raw)))"
  shows "convert_tweet e raw st = Inl (IndexError 442) \<and>
         (raw \<in> set (concat (tweets_json a)) \<longrightarrow> isl (init e a s0))"
proof -
  have c: "convert_tweet e raw st = Inl (IndexError 442)" for st
    using convert_tweet_blank [OF assms] .
  have "isl (init e a s0)" if "raw \<in> set (concat (tweets_json a))"
  proof -
    have "isl (tweets_loop e (concat (tweets_json a)) ([], [], s0))"
      by (rule tweets_loop_fails [OF that]) (simp add: c)
    then show ?thesis
      by (simp add: init_def get_tweets_def isl_bind)
  qed
  with c show ?thesis by simp
qed

theorem blank_full_text_raises_IndexError_witness:
  "list_all py_isspace (full_text (unwrap (Bare (ex_tweet (u '' ''))))) \<and>
   5 < length (py_split (created_at (unwrap (Bare (ex_tweet (u '' '')))))) \<and>
   convert_tweet ex_env (Bare (ex_tweet (u '' ''))) ([], ex_parser) = Inl (IndexError 442) \<and>
   Bare (ex_tweet (u '' '')) \<in> set (concat (tweets_json (ex_archive\<lparr>tweets_json := [[Bare (ex_tweet (u '' ''))]]\<rparr>))) \<and>
   isl (init ex_env (ex_archive\<lparr>tweets_json := [[Bare (ex_tweet (u '' ''))]]\<rparr>) ex_parser)"
proof -
  have 1: "\<forall>c \<in> set (full_text (unwrap (Bare (ex_tweet (u '' ''))))). py_isspace c"
    by (simp add: ex_tweet_def u_def py_isspace_def)
  have 2: "5 < length (py_split (created_at (unwrap (Bare (ex_tweet (u '' ''))))))"
    by (simp add: ex_tweet_def u_def py_isspace_def py_split_def)
  have 3: "Bare (ex_tweet (u '' '')) \<in> set (concat (tweets_json (ex_archive\<lparr>tweets_json := [[Bare (ex_tweet (u '' ''))]]\<rparr>)))"
    by simp
  from blank_full_text_raises_IndexError [OF 1 2, of ex_env "([], ex_parser)"
      "ex_archive\<lparr>tweets_json := [[Bare (ex_tweet (u '' ''))]]\<rparr>" ex_parser] 1 2 3
  show ?thesis unfolding list_all_iff by blast
qed

subsection \<open>A conversation id that is not a pair\<close>

lemma split_on_nonempty: "split_on sep s \<noteq> []"
  by (induction s) (auto split: list.splits)

lemma length_split_on: "length (split_on sep s) = Suc (count_list s sep)"
  by (induction s) (auto split: list.splits simp: split_on_nonempty)

lemma split_on_not_two:
  assumes "count_list s sep \<noteq> 1"
  shows "(case split_on sep s of [x, y] \<Rightarrow> f x y | _ \<Rightarrow> g) = g"
  using assms length_split_on [of sep s]
  by (auto split: list.splits)

lemma dms_user_ids_loop_bad:
  assumes "c \<in> set cs" "dmConversation c = Some d" "conversationId d = Some cid"
    "count_list cid 45 \<noteq> 1"
  shows "dms_user_ids_loop cs acc = Inl (ValueError 307)"
  using assms
proof (induction cs arbitrary: acc)
  case Nil
  then show ?case by simp
next
  case (Cons x xs)
  show ?case
  proof (cases "x = c")
    case True
    with Cons.prems show ?thesis by (simp add: split_on_not_two)
  next
    case False
    with Cons.prems have "c \<in> set xs" by simp
    with Cons have IH: "\<And>acc. dms_user_ids_loop xs acc = Inl (ValueError 307)" by blast
    show ?thesis
      by (simp add: IH split: option.splits list.splits)
  qed
qed

text \<open>
  C10. When some pairwise conversation has a \<open>conversationId\<close> in which \<open>-\<close> occurs not
  at all or more than once, the unpacking at line 307 raises ValueError; the collection of
  the candidate ids, the bulk lookup and the whole run end in an exception.
\<close>

theorem conversation_id_must_have_two_parts:
  assumes "c \<in> set (dms_json a)" and "dmConversation c = Some d" and "conversationId d = Some cid"
    and "count_list cid 45 \<noteq> 1"
  shows "collect_user_ids_from_direct_messages e a = Inl (ValueError 307) \<and>
         bulk_look_up_for_user_handles e a s = Inl (ValueError 307) \<and>
         isl (init e a s0)"
proof -
  have 1: "collect_user_ids_from_direct_messages e a = Inl (ValueError 307)"
    by (simp add: collect_user_ids_from_direct_messages_def dms_user_ids_loop_bad [OF assms])
  then have 2: "bulk_look_up_for_user_handles e a s = Inl (ValueError 307)" for s
    by (simp add: bulk_look_up_for_user_handles_def collected_user_ids_def Let_def)
  have 3: "isl (init e a s0)"
  proof (cases "get_tweets e a s0")
    case (Inl err)
    then show ?thesis by (simp add: init_def)
  next
    case (Inr r)
    then show ?thesis by (cases r) (simp add: init_def 2)
  qed
  from 1 2 3 show ?thesis by simp
qed

theorem conversation_id_must_have_two_parts_witness:
  "ex_conversation (u ''12'') [] \<in> set (dms_json (ex_archive\<lparr>dms_json := [ex_conversation (u ''12'') []]\<rparr>)) \<and>
   dmConversation (ex_conversation (u ''12'') []) = Some \<lparr>conversationId = Some (u ''12''), messages = Some []\<rparr> \<and>
   count_list (u ''12'') 45 \<noteq> 1 \<and>
   collect_user_ids_from_direct_messages ex_env (ex_archive\<lparr>dms_json := [ex_conversation (u ''12'') []]\<rparr>)
     = Inl (ValueError 307) \<and>
   bulk_look_up_for_user_handles ex_env (ex_archive\<lparr>dms_json := [ex_conversation (u ''12'') []]\<rparr>) ex_parser
     = Inl (ValueError 307) \<and>
   isl (init ex_env (ex_archive\<lparr>dms_json := [ex_conversation (u ''12'') []]\<rparr>) ex_parser)"
proof -
  have 1: "ex_conversation (u ''12'') [] \<in> set (dms_json (ex_archive\<lparr>dms_json := [ex_conversation (u ''12'') []]\<rparr>))"
    by simp
  have 2: "dmConversation (ex_conversation (u ''12'') []) = Some \<lparr>conversationId = Some (u ''12''), messages = Some []\<rparr>"
    by (simp add: ex_conversation_def)
  have 3: "conversationId \<lparr>conversationId = Some (u ''12''), messages = Some []\<rparr> = Some (u ''12'')"
    by simp
  have 4: "count_list (u ''12'') 45 \<noteq> 1" by (simp add: u_def)
  from conversation_id_must_have_two_parts [OF 1 2 3 4, of ex_env ex_parser ex_parser] 1 2 4
  show ?thesis by blast
qed

subsection \<open>The ids that the bulk lookup requests\<close>

lemma set_py_set_iter: "set (py_set_iter e xs) = set xs"
  by (simp add: py_set_iter_def first_seen_def)







lemma message_participant_ids_set:
  "message_participant_ids m = Inr ids \<Longrightarrow> set ids = event_ids m"
  by (cases m) (auto simp: event_ids_def split: option.splits)

lemma group_user_ids_loop_set:
  "group_user_ids_loop ms acc = Inr ids \<Longrightarrow> set ids = set acc \<union> (\<Union>m \<in> set ms. event_ids m)"
proof (induction ms arbitrary: acc)
  case Nil
  then show ?case by auto
next
  case (Cons m ms)
  from Cons.prems obtain xs where m: "message_participant_ids m = Inr xs"
    and rest: "group_user_ids_loop ms (acc @ xs) = Inr ids"
    by (cases "message_participant_ids m") auto
  from Cons.IH [OF rest] message_participant_ids_set [OF m] show ?case by auto
qed

lemma find_participants_set:
  "find_group_dm_conversation_participant_ids c = Inr ids \<Longrightarrow> set ids = group_conversation_ids c"
  by (auto simp: find_group_dm_conversation_participant_ids_def group_conversation_ids_def
      split: option.splits dest!: group_user_ids_loop_set)





lemma requests_logging [simp]: "requests (logging l s) = requests s"
  by (simp add: logging_def)

lemma requests_register [simp]: "requests (register origin i h s) = requests s"
  by (simp add: register_def)

lemma users_logging [simp]: "users (logging l s) = users s"
  by (simp add: logging_def)

lemma requests_register_retrieved [simp]: "requests (register_retrieved r s) = requests s"
  by (induction r s rule: register_retrieved.induct) (auto split: field.splits)













subsection \<open>The order of the writes to the registry\<close>






subsection \<open>Handles of ids that the registry does not know\<close>

lemma users_copy_if_missing: "copy_if_missing l e src dst s = Inr s1 \<Longrightarrow> users s1 = users s"
  by (auto simp: copy_if_missing_def split: if_splits)

lemma users_dm_video_loop:
  "dm_video_loop grp e pc x ps (b, s) = Inr (b1, s1) \<Longrightarrow> users s1 = users s"
proof (induction ps arbitrary: b s)
  case Nil
  then show ?case by simp
next
  case (Cons p ps)
  then show ?case
    by (auto simp: Let_def bind_eq_Inr dest!: users_copy_if_missing)
qed

lemma users_dm_media:
  "dm_media grp e pc mc (b, s) = Inr (b1, s1) \<Longrightarrow> users s1 = users s"
  by (auto simp: dm_media_def Let_def bind_eq_Inr logging_def
      split: option.splits list.splits if_splits
      dest!: users_copy_if_missing users_dm_video_loop)

lemma convert_dm_handles:
  assumes "convert_dm e mc s = Inr (Some dm, s1)"
  shows "senderId mc \<noteq> None \<and> recipientId mc \<noteq> None \<and>
         dm_from dm = message_handle s (the (senderId mc)) \<and>
         dm_to dm = message_handle s (the (recipientId mc))"
  using assms
  by (auto simp: convert_dm_def bind_eq_Inr message_handle_def split: option.splits prod.splits
      dest!: users_dm_media)

lemma convert_group_dm_handles:
  assumes "convert_group_dm e mc s = Inr (Some dm, s1)"
  shows "senderId mc \<noteq> None \<and> group_dm_from dm = message_handle s (the (senderId mc))"
  using assms
  by (auto simp: convert_group_dm_def bind_eq_Inr message_handle_def split: option.splits prod.splits
      dest!: users_dm_media)

lemma group_participants_unresolved:
  assumes "users s i = None" and "group_participants e c s = Inr ps"
    and "i \<in> group_conversation_ids c"
  shows "USER_URL_TEMPLATE i \<in> set ps"
proof -
  from assms(2) obtain ids where ids: "find_group_dm_conversation_participant_ids c = Inr ids"
    and ps: "ps = map (message_handle s) (py_set_iter e ids)"
    by (auto simp: group_participants_def bind_eq_Inr)
  from find_participants_set [OF ids] assms(3) have "i \<in> set (py_set_iter e ids)"
    by (simp add: set_py_set_iter)
  then have "message_handle s i \<in> set ps" unfolding ps by simp
  with assms(1) show ?thesis by (simp add: message_handle_def)
qed

text \<open>
  C8. For an id that is not in the registry, the follow edges (following and followers)
  carry the handle \<open>~unknown~handle~\<close>, while a direct message (sender and recipient), a
  group message (sender) and the participants of a group conversation carry
  \<open>https://twitter.com/i/user/\<close> followed by the id.
\<close>

theorem unresolved_id_handles:
  assumes "users s i = None"
  shows "user_handle (follow_user s i) = Some (u ''~unknown~handle~'') \<and>
    (i \<in> set (collect_user_ids_from_followings a) \<longrightarrow>
       \<lparr>user_handle = Some (u ''~unknown~handle~''), user_profile_url = Some (USER_URL_TEMPLATE i)\<rparr>
         \<in> set (get_following_users a s)) \<and>
    (i \<in> set (collect_user_ids_from_followers a) \<longrightarrow>
       \<lparr>user_handle = Some (u ''~unknown~handle~''), user_profile_url = Some (USER_URL_TEMPLATE i)\<rparr>
         \<in> set (get_followers_users a s)) \<and>
    (convert_dm e mc s = Inr (Some dm, s1) \<and> senderId mc = Some i \<longrightarrow>
       dm_from dm = u ''https://twitter.com/i/user/'' @ i) \<and>
    (convert_dm e rmc s = Inr (Some rdm, s3) \<and> recipientId rmc = Some i \<longrightarrow>
       dm_to rdm = u ''https://twitter.com/i/user/'' @ i) \<and>
    (convert_group_dm e gmc s = Inr (Some gdm, s2) \<and> senderId gmc = Some i \<longrightarrow>
       group_dm_from gdm = u ''https://twitter.com/i/user/'' @ i) \<and>
    (group_participants e c s = Inr ps \<and> i \<in> group_conversation_ids c \<longrightarrow>
       u ''https://twitter.com/i/user/'' @ i \<in> set ps)"
proof -
  have f: "follow_user s i =
      \<lparr>user_handle = Some (u ''~unknown~handle~''), user_profile_url = Some (USER_URL_TEMPLATE i)\<rparr>"
    using assms by (simp add: follow_user_def UNKNOWN_HANDLE_def)
  have m: "message_handle s i = u ''https://twitter.com/i/user/'' @ i"
    using assms by (simp add: message_handle_def USER_URL_TEMPLATE_def)
  have 1: "user_handle (follow_user s i) = Some (u ''~unknown~handle~'')" by (simp add: f)
  have 2: "i \<in> set (collect_user_ids_from_followings a) \<longrightarrow>
       \<lparr>user_handle = Some (u ''~unknown~handle~''), user_profile_url = Some (USER_URL_TEMPLATE i)\<rparr>
         \<in> set (get_following_users a s)"
    unfolding get_following_users_def collect_user_ids_from_followings_def f [symmetric]
    by auto
  have 3: "i \<in> set (collect_user_ids_from_followers a) \<longrightarrow>
       \<lparr>user_handle = Some (u ''~unknown~handle~''), user_profile_url = Some (USER_URL_TEMPLATE i)\<rparr>
         \<in> set (get_followers_users a s)"
    unfolding get_followers_users_def collect_user_ids_from_followers_def f [symmetric]
    by auto
  have 4: "convert_dm e mc s = Inr (Some dm, s1) \<and> senderId mc = Some i \<longrightarrow>
       dm_from dm = u ''https://twitter.com/i/user/'' @ i"
    using convert_dm_handles [of e mc s dm s1] m by auto
  have 5: "convert_dm e rmc s = Inr (Some rdm, s3) \<and> recipientId rmc = Some i \<longrightarrow>
       dm_to rdm = u ''https://twitter.com/i/user/'' @ i"
    using convert_dm_handles [of e rmc s rdm s3] m by auto
  have 6: "convert_group_dm e gmc s = Inr (Some gdm, s2) \<and> senderId gmc = Some i \<longrightarrow>
       group_dm_from gdm = u ''https://twitter.com/i/user/'' @ i"
    using convert_group_dm_handles [of e gmc s gdm s2] m by auto
  have 7: "group_participants e c s = Inr ps \<and> i \<in> group_conversation_ids c \<longrightarrow>
       u ''https://twitter.com/i/user/'' @ i \<in> set ps"
    using group_participants_unresolved [OF assms, of e c ps]
    by (simp add: USER_URL_TEMPLATE_def)
  from 1 2 3 4 5 6 7 show ?thesis by blast
qed

lemma ex_999_unknown: "users ex_parser (u ''999'') = None"
  by (simp add: ex_parser_def)

lemma ex_999_following: "u ''999'' \<in> set (collect_user_ids_from_followings ex_follow_archive)"
  by (simp add: ex_follow_archive_def collect_user_ids_from_followings_def following_account_id_def)

lemma ex_999_follower: "u ''999'' \<in> set (collect_user_ids_from_followers ex_follow_archive)"
  by (simp add: ex_follow_archive_def collect_user_ids_from_followers_def follower_account_id_def)

lemma ex_999_dm:
  "convert_dm ex_env (ex_message (u ''999'') (u ''1'') (u ''hi'')) ex_parser = Inr (Some ex_dm, ex_parser)"
  by (simp add: convert_dm_def ex_message_def expand_dm_urls_def dm_media_def py_split_def
      join_words_def message_handle_def ex_parser_def USER_URL_TEMPLATE_def splitlines_def
      is_linebreak_def py_isspace_def ex_dm_def u_def)

lemma ex_1_dm:
  "convert_dm ex_env (ex_message (u ''1'') (u ''999'') (u ''hi'')) ex_parser =
     Inr (Some (ex_dm\<lparr>dm_from := u ''https://twitter.com/i/user/1'',
                      dm_to := u ''https://twitter.com/i/user/999''\<rparr>), ex_parser)"
  by (simp add: convert_dm_def ex_message_def expand_dm_urls_def dm_media_def py_split_def
      join_words_def message_handle_def ex_parser_def USER_URL_TEMPLATE_def splitlines_def
      is_linebreak_def py_isspace_def ex_dm_def u_def)

lemma ex_999_group_dm:
  "convert_group_dm ex_env (ex_message (u ''999'') (u ''1'') (u ''hi'')) ex_parser =
     Inr (Some ex_group_dm, ex_parser)"
  by (simp add: convert_group_dm_def ex_message_def expand_dm_urls_def dm_media_def py_split_def
      join_words_def message_handle_def ex_parser_def USER_URL_TEMPLATE_def splitlines_def
      is_linebreak_def py_isspace_def ex_group_dm_def u_def)

lemma ex_999_participants:
  "group_participants ex_env ex_group_conversation ex_parser = Inr [u ''https://twitter.com/i/user/999'']"
  by (simp add: group_participants_def find_group_dm_conversation_participant_ids_def
      ex_group_conversation_def ex_conversation_def ex_message_def py_set_iter_def first_seen_def ex_env_def
      message_handle_def ex_parser_def USER_URL_TEMPLATE_def u_def)

lemma ex_999_in_group: "u ''999'' \<in> group_conversation_ids ex_group_conversation"
  by (simp add: group_conversation_ids_def ex_group_conversation_def ex_conversation_def
      event_ids_def ex_message_def)


theorem unresolved_id_handles_witness:
  "users ex_parser (u ''999'') = None \<and>
   user_handle (follow_user ex_parser (u ''999'')) = Some (u ''~unknown~handle~'') \<and>
   u ''999'' \<in> set (collect_user_ids_from_followings ex_follow_archive) \<and>
   \<lparr>user_handle = Some (u ''~unknown~handle~''),
     user_profile_url = Some (USER_URL_TEMPLATE (u ''999''))\<rparr>
     \<in> set (get_following_users ex_follow_archive ex_parser) \<and>
   u ''999'' \<in> set (collect_user_ids_from_followers ex_follow_archive) \<and>
   \<lparr>user_handle = Some (u ''~unknown~handle~''),
     user_profile_url = Some (USER_URL_TEMPLATE (u ''999''))\<rparr>
     \<in> set (get_followers_users ex_follow_archive ex_parser) \<and>
   convert_dm ex_env (ex_message (u ''999'') (u ''1'') (u ''hi'')) ex_parser = Inr (Some ex_dm, ex_parser) \<and>
   senderId (ex_message (u ''999'') (u ''1'') (u ''hi'')) = Some (u ''999'') \<and>
   dm_from ex_dm = u ''https://twitter.com/i/user/999'' \<and>
   convert_dm ex_env (ex_message (u ''1'') (u ''999'') (u ''hi'')) ex_parser =
     Inr (Some (ex_dm\<lparr>dm_from := u ''https://twitter.com/i/user/1'',
                      dm_to := u ''https://twitter.com/i/user/999''\<rparr>), ex_parser) \<and>
   recipientId (ex_message (u ''1'') (u ''999'') (u ''hi'')) = Some (u ''999'') \<and>
   dm_to (ex_dm\<lparr>dm_from := u ''https://twitter.com/i/user/1'',
                 dm_to := u ''https://twitter.com/i/user/999''\<rparr>) = u ''https://twitter.com/i/user/999'' \<and>
   convert_group_dm ex_env (ex_message (u ''999'') (u ''1'') (u ''hi'')) ex_parser =
     Inr (Some ex_group_dm, ex_parser) \<and>
   group_dm_from ex_group_dm = u ''https://twitter.com/i/user/999'' \<and>
   group_participants ex_env ex_group_conversation ex_parser = Inr [u ''https://twitter.com/i/user/999''] \<and>
   u ''999'' \<in> group_conversation_ids ex_group_conversation \<and>
   u ''https://twitter.com/i/user/'' @ u ''999'' \<in> set [u ''https://twitter.com/i/user/999'']"
proof -
  have s: "senderId (ex_message (u ''999'') (u ''1'') (u ''hi'')) = Some (u ''999'')"
    by (simp add: ex_message_def)
  have r: "recipientId (ex_message (u ''1'') (u ''999'') (u ''hi'')) = Some (u ''999'')"
    by (simp add: ex_message_def)
  have d: "dm_from ex_dm = u ''https://twitter.com/i/user/999''"
    by (simp add: ex_dm_def)
  have t: "dm_to (ex_dm\<lparr>dm_from := u ''https://twitter.com/i/user/1'',
                 dm_to := u ''https://twitter.com/i/user/999''\<rparr>) = u ''https://twitter.com/i/user/999''"
    by simp
  have g: "group_dm_from ex_group_dm = u ''https://twitter.com/i/user/999''"
    by (simp add: ex_group_dm_def)
  have l: "u ''https://twitter.com/i/user/'' @ u ''999'' \<in> set [u ''https://twitter.com/i/user/999'']"
    by (simp add: u_def)
  from unresolved_id_handles [OF ex_999_unknown, of ex_follow_archive ex_env
      "ex_message (u ''999'') (u ''1'') (u ''hi'')" ex_dm ex_parser
      "ex_message (u ''1'') (u ''999'') (u ''hi'')"
      "ex_dm\<lparr>dm_from := u ''https://twitter.com/i/user/1'', dm_to := u ''https://twitter.com/i/user/999''\<rparr>"
      ex_parser
      "ex_message (u ''999'') (u ''1'') (u ''hi'')" ex_group_dm ex_parser
      ex_group_conversation "[u ''https://twitter.com/i/user/999'']"]
    ex_999_unknown ex_999_following ex_999_follower ex_999_dm ex_1_dm ex_999_group_dm
    ex_999_participants ex_999_in_group s r d t g l
  show ?thesis by blast
qed

end
